theory Spec2Isabelle
  imports Main "HOL-Library.Word"
begin

section \<open>JavaScript strings\<close>

text \<open>
  A JavaScript string is a sequence of UTF-16 code units; \<open>length\<close>, \<open>trim\<close> and
  \<open>padEnd\<close> all work on code units. Literals of the source are ASCII and written
  \<open>js ''...''\<close>.
\<close>

type_synonym code_unit = "16 word"
type_synonym js_string = "code_unit list"

definition js :: "string \<Rightarrow> js_string" where
  "js s = map of_char s"

definition SPACE :: code_unit where
  "SPACE = 0x20"

text \<open>
  ECMAScript \<open>WhiteSpace\<close> and \<open>LineTerminator\<close> code points (all of them in the basic
  plane, so one code unit each): TAB, LF, VT, FF, CR, SP, NBSP, U+1680, U+2000 to U+200A,
  U+2028, U+2029, U+202F, U+205F, U+3000 and U+FEFF.
\<close>

definition is_white_space :: "code_unit \<Rightarrow> bool" where
  "is_white_space c =
     (c \<in> set [0x09, 0x0A, 0x0B, 0x0C, 0x0D, 0x20, 0xA0, 0x1680,
                0x2028, 0x2029, 0x202F, 0x205F, 0x3000, 0xFEFF]
      \<or> (0x2000 \<le> c \<and> c \<le> 0x200A))"

text \<open>\<open>String.prototype.trim\<close>: white space removed from both ends.\<close>

definition trim :: "js_string \<Rightarrow> js_string" where
  "trim s = rev (dropWhile is_white_space (rev (dropWhile is_white_space s)))"

text \<open>
  \<open>String.prototype.padEnd(targetLength, padString)\<close>: the string itself when it is
  long enough or the filler is empty, otherwise the filler repeated and cut to fit.
\<close>

definition padEnd :: "js_string \<Rightarrow> nat \<Rightarrow> js_string \<Rightarrow> js_string" where
  "padEnd s n filler =
     (if n \<le> length s \<or> filler = [] then s
      else s @ take (n - length s) (concat (replicate (n - length s) filler)))"

section \<open>utils.ts\<close>

text \<open>
  The errors of the component, one constructor for each \<open>new Error(...)\<close> of the source
  (the text of a message is not modelled, what it interpolates is kept), and what the
  third-party plugin call may throw.
\<close>

datatype error =
    BrandIdRequired
  | BrandIdTooLong nat js_string
  | BrandIdEmpty
  | FailedToLoadJQuery
  | FailedToLoadMRWidget
  | PluginError js_string
  | PluginNonError

text \<open>
  \<^verbatim>\<open>
  export function normalizeBrandId(brand: string): string {
    if (!brand) throw new Error('... brandIdAPI is required and must be a string')
    const trimmed = brand.trim()
    if (trimmed.length > 8) throw new Error(`... must be at most 8 characters (got ...)`)
    if (trimmed.length === 0) throw new Error('... brandIdAPI cannot be empty')
    return trimmed.padEnd(8, ' ')
  }
  \<close>
  \<open>!brand\<close> holds of a string exactly when it is the empty string.
\<close>

definition normalizeBrandId :: "js_string \<Rightarrow> error + js_string" where
  "normalizeBrandId brand =
     (if brand = [] then Inl BrandIdRequired
      else let trimmed = trim brand in
        if length trimmed > 8 then Inl (BrandIdTooLong (length trimmed) trimmed)
        else if length trimmed = 0 then Inl BrandIdEmpty
        else Inr (padEnd trimmed 8 [SPACE]))"

text \<open>
  \<^verbatim>\<open>
  export function validateDeliveryMode(mode?: string): void {
    const validModes = ['LCC', 'HOM', '24R', '24L', 'XOH']
    if (mode && !validModes.includes(mode)) {
      console.error(`[ParcelShopSelector] Invalid deliveryMode: "${mode}". ` +
        `Valid modes are: ${validModes.join(', ')}. Defaulting to "24R".`)
    }
  }
  \<close>
  The function returns nothing and never throws; its only effect is the line it may write
  to the console, so the model returns the lines written. \<open>mode\<close> is falsy when it is
  \<open>undefined\<close> or the empty string.
\<close>

datatype console_entry =
    ConfigError error
  | InvalidDeliveryMode js_string
  | InitError error
  | JQueryNotAvailable
  | WidgetInitFailed error

definition validModes :: "js_string list" where
  "validModes = [js ''LCC'', js ''HOM'', js ''24R'', js ''24L'', js ''XOH'']"

definition validateDeliveryMode :: "js_string option \<Rightarrow> console_entry list" where
  "validateDeliveryMode mode =
     (case mode of
        None \<Rightarrow> []
      | Some m \<Rightarrow> if m \<noteq> [] \<and> m \<notin> set validModes then [InvalidDeliveryMode m] else [])"

section \<open>index.tsx: props and the configuration handed to the plugin\<close>

text \<open>
  The props as the host passes them: an absent prop is \<open>None\<close>. Weights and result counts
  are whole numbers. The callback \<open>onParcelShopSelected\<close> is only ever called by the
  plugin after a selection and is no dependency of any effect; it is left out.
\<close>

record Props =
  weight :: "int option"
  nbResults :: "int option"
  brandIdAPI :: "js_string option"
  deliveryMode :: "js_string option"
  defaultCountry :: "js_string option"
  defaultPostcode :: "js_string option"
  allowedCountries :: "js_string option"

text \<open>
  The destructuring at the head of the component: a default applies exactly when the prop
  is \<open>undefined\<close>.
  \<^verbatim>\<open>
  const { weight, nbResults = 7, brandIdAPI = 'BDTEST', deliveryMode = '24R',
          defaultCountry = 'FR', defaultPostcode = '59000', allowedCountries = 'FR',
          onParcelShopSelected } = props
  \<close>
\<close>

definition nbResults_of :: "Props \<Rightarrow> int" where
  "nbResults_of p = (case nbResults p of None \<Rightarrow> 7 | Some n \<Rightarrow> n)"

definition brandIdAPI_of :: "Props \<Rightarrow> js_string" where
  "brandIdAPI_of p = (case brandIdAPI p of None \<Rightarrow> js ''BDTEST'' | Some b \<Rightarrow> b)"

definition deliveryMode_of :: "Props \<Rightarrow> js_string" where
  "deliveryMode_of p = (case deliveryMode p of None \<Rightarrow> js ''24R'' | Some m \<Rightarrow> m)"

definition defaultCountry_of :: "Props \<Rightarrow> js_string" where
  "defaultCountry_of p = (case defaultCountry p of None \<Rightarrow> js ''FR'' | Some c \<Rightarrow> c)"

definition defaultPostcode_of :: "Props \<Rightarrow> js_string" where
  "defaultPostcode_of p = (case defaultPostcode p of None \<Rightarrow> js ''59000'' | Some c \<Rightarrow> c)"

definition allowedCountries_of :: "Props \<Rightarrow> js_string" where
  "allowedCountries_of p = (case allowedCountries p of None \<Rightarrow> js ''FR'' | Some c \<Rightarrow> c)"

text \<open>\<open>String(n)\<close> of a whole number (below \<open>10^21\<close> in size): its decimal numeral.\<close>

fun digits :: "nat \<Rightarrow> js_string" where
  "digits n = (if n < 10 then [of_nat (48 + n)] else digits (n div 10) @ [of_nat (48 + n mod 10)])"

definition String_of :: "int \<Rightarrow> js_string" where
  "String_of n = (if n < 0 then 0x2D # digits (nat (- n)) else digits (nat n))"

record MRWidgetConfig =
  Target :: js_string
  Brand :: js_string
  Country :: js_string
  PostCode :: js_string
  ColLivMod :: js_string
  NbResults :: js_string
  ShowResultsOnMap :: bool
  DisplayMapInfo :: bool
  AllowedCountries :: js_string
  CSS :: js_string
  Weight :: "int option"

text \<open>
  The object literal of \<open>initWidget\<close>; \<open>...(weight && { Weight: weight })\<close> adds the
  weight when it is truthy, that is present and not zero.
\<close>

definition widget_config :: "Props \<Rightarrow> js_string \<Rightarrow> MRWidgetConfig" where
  "widget_config p normalizedBrand =
     \<lparr> Target = js ''#Target_Widget'',
       Brand = normalizedBrand,
       Country = defaultCountry_of p,
       PostCode = defaultPostcode_of p,
       ColLivMod = deliveryMode_of p,
       NbResults = String_of (nbResults_of p),
       ShowResultsOnMap = True,
       DisplayMapInfo = True,
       AllowedCountries = allowedCountries_of p,
       CSS = js ''1'',
       Weight = (case weight p of None \<Rightarrow> None | Some g \<Rightarrow> if g = 0 then None else Some g) \<rparr>"

section \<open>index.tsx: the page and the sessions\<close>

text \<open>
  \<open>window.$\<close> is absent (or falsy), present but no function, or a function.
\<close>

datatype dollar = NoDollar | DollarNotCallable | DollarFunction

datatype script_src = JQuerySrc | MRWidgetSrc

text \<open>
  A script element appended to the body: its source, the promise (the \<open>loadScripts\<close> call)
  whose \<open>resolve\<close> and \<open>reject\<close> its handlers hold, and whether its load or error event
  has fired.
\<close>

record script_el =
  src :: script_src
  call :: nat
  fired :: bool

datatype promise = Pending | Resolved | Rejected error

text \<open>An element with id \<open>Zone_Widget\<close>: the mount that rendered it and its content.\<close>

record zone_el =
  mount :: nat
  innerHTML :: js_string

text \<open>
  A suspended \<open>initializeWidget\<close>: the promise it awaits, the session it belongs to, the
  props its closure holds, and whether it has been resumed.
\<close>

record awaiting =
  promise :: nat
  session :: nat
  captured :: Props
  resumed :: bool

text \<open>
  One mount of the component: its current props, the state \<open>isReady\<close> and \<open>error\<close>
  (the message of that error, or null), the ref \<open>widgetInitialized\<close>, whether the last run
  of the second effect returned its cleanup function, and whether it is still mounted.
\<close>

record session_state =
  props :: Props
  isReady :: bool
  error :: "error option"
  widgetInitialized :: bool
  cleanup :: bool
  mounted :: bool

record world =
  browser :: bool
  dollar :: dollar
  MR_WIDGET_SCRIPTS_LOADED :: bool
  MR_WIDGET_INITIALIZED :: bool
  style_injected :: bool
  body_scripts :: "script_el list"
  zones :: "zone_el list"
  console :: "console_entry list"
  promises :: "promise list"
  awaitings :: "awaiting list"
  sessions :: "session_state list"

definition isBrowser :: "world \<Rightarrow> bool" where
  "isBrowser w = browser w"

text \<open>
  Whether the \<open>error\<close> state is truthy: every message of the component is a non-empty
  string; an \<open>Error\<close> thrown by the plugin may carry the empty message.
\<close>

fun truthy :: "error option \<Rightarrow> bool" where
  "truthy None = False"
| "truthy (Some (PluginError m)) = (m \<noteq> [])"
| "truthy (Some _) = True"

definition log :: "console_entry list \<Rightarrow> world \<Rightarrow> world" where
  "log es w = w\<lparr>console := console w @ es\<rparr>"

definition upd_session :: "nat \<Rightarrow> (session_state \<Rightarrow> session_state) \<Rightarrow> world \<Rightarrow> world" where
  "upd_session sid f w = w\<lparr>sessions := (sessions w)[sid := f (sessions w ! sid)]\<rparr>"

subsection \<open>Loading the scripts\<close>

text \<open>Settling a promise: only a pending promise changes.\<close>

definition settle :: "nat \<Rightarrow> promise \<Rightarrow> world \<Rightarrow> world" where
  "settle p v w =
     (if p < length (promises w) \<and> promises w ! p = Pending
      then w\<lparr>promises := (promises w)[p := v]\<rparr> else w)"

definition append_script :: "script_src \<Rightarrow> nat \<Rightarrow> world \<Rightarrow> world" where
  "append_script s p w = w\<lparr>body_scripts := body_scripts w @ [\<lparr>src = s, call = p, fired = False\<rparr>]\<rparr>"

text \<open>
  \<^verbatim>\<open>
  function loadMRWidget(resolve, reject) {
    if (window.__MR_WIDGET_SCRIPTS_LOADED__) { resolve(); return }
    const mr = document.createElement('script')
    mr.src = '.../jquery.plugin.mondialrelay.parcelshoppicker.min.js'
    mr.onerror = () => reject(new Error('Failed to load Mondial Relay widget'))
    mr.onload = () => { window.__MR_WIDGET_SCRIPTS_LOADED__ = true; resolve() }
    document.body.appendChild(mr)
  }
  \<close>
\<close>

definition loadMRWidget :: "nat \<Rightarrow> world \<Rightarrow> world" where
  "loadMRWidget p w =
     (if MR_WIDGET_SCRIPTS_LOADED w then settle p Resolved w
      else append_script MRWidgetSrc p w)"

text \<open>
  \<^verbatim>\<open>
  function loadScripts(): Promise<void> {
    return new Promise((resolve, reject) => {
      if (window.__MR_WIDGET_SCRIPTS_LOADED__ && window.$) { resolve(); return }
      if (window.$) { loadMRWidget(resolve, reject); return }
      const jquery = document.createElement('script')
      jquery.src = '.../jquery/2.2.4/jquery.min.js'
      jquery.onerror = () => reject(new Error('Failed to load jQuery'))
      jquery.onload = () => { loadMRWidget(resolve, reject) }
      document.body.appendChild(jquery)
    })
  }
  \<close>
  The new promise is the next entry of \<open>promises\<close>; its index is returned.
\<close>

definition loadScripts :: "world \<Rightarrow> nat \<times> world" where
  "loadScripts w =
     (let p = length (promises w);
          w1 = w\<lparr>promises := promises w @ [Pending]\<rparr>
      in (p,
          if MR_WIDGET_SCRIPTS_LOADED w1 \<and> dollar w1 \<noteq> NoDollar then settle p Resolved w1
          else if dollar w1 \<noteq> NoDollar then loadMRWidget p w1
          else append_script JQuerySrc p w1))"

text \<open>
  The handlers of the two script elements, and the browser firing them. A script's event
  fires once. When the jQuery script has loaded it has run, and \<open>window.$\<close> is jQuery's
  function.
\<close>

definition onload :: "script_el \<Rightarrow> world \<Rightarrow> world" where
  "onload el w =
     (case src el of
        JQuerySrc \<Rightarrow> loadMRWidget (call el) w
      | MRWidgetSrc \<Rightarrow> settle (call el) Resolved (w\<lparr>MR_WIDGET_SCRIPTS_LOADED := True\<rparr>))"

definition onerror :: "script_el \<Rightarrow> world \<Rightarrow> world" where
  "onerror el w =
     (case src el of
        JQuerySrc \<Rightarrow> settle (call el) (Rejected FailedToLoadJQuery) w
      | MRWidgetSrc \<Rightarrow> settle (call el) (Rejected FailedToLoadMRWidget) w)"

definition mark_fired :: "nat \<Rightarrow> world \<Rightarrow> world" where
  "mark_fired i w = w\<lparr>body_scripts := (body_scripts w)[i := (body_scripts w ! i)\<lparr>fired := True\<rparr>]\<rparr>"

definition script_loaded :: "nat \<Rightarrow> world \<Rightarrow> world" where
  "script_loaded i w =
     (if i < length (body_scripts w) \<and> \<not> fired (body_scripts w ! i) then
        let el = body_scripts w ! i;
            w1 = mark_fired i w;
            w2 = (case src el of JQuerySrc \<Rightarrow> w1\<lparr>dollar := DollarFunction\<rparr> | MRWidgetSrc \<Rightarrow> w1)
        in onload el w2
      else w)"

definition script_failed :: "nat \<Rightarrow> world \<Rightarrow> world" where
  "script_failed i w =
     (if i < length (body_scripts w) \<and> \<not> fired (body_scripts w ! i)
      then onerror (body_scripts w ! i) (mark_fired i w)
      else w)"

subsection \<open>Attaching the widget\<close>

text \<open>
  The call \<open>window.$('#Zone_Widget').MR_ParcelShopPicker(config)\<close> belongs to jQuery and to
  the third-party plugin. It is a parameter of the model: from the configuration and the
  content of the first element with id \<open>Zone_Widget\<close> (if there is one) it gives what it
  throws (if anything) and the content it leaves in that element. It is taken not to
  touch the flags of the component nor any other element.
\<close>

type_synonym plugin = "MRWidgetConfig \<Rightarrow> js_string option \<Rightarrow> error option \<times> js_string"

definition injectCSS :: "world \<Rightarrow> world" where
  "injectCSS w = (if style_injected w then w else w\<lparr>style_injected := True\<rparr>)"

text \<open>
  \<open>document.getElementById('Zone_Widget')\<close> is the first such element of the document;
  \<open>if (zone) zone.innerHTML = ''\<close> empties it.
\<close>

definition zone_content :: "world \<Rightarrow> js_string option" where
  "zone_content w = (case zones w of [] \<Rightarrow> None | z # zs \<Rightarrow> Some (innerHTML z))"

definition write_zone :: "js_string \<Rightarrow> world \<Rightarrow> world" where
  "write_zone h w = (case zones w of [] \<Rightarrow> w | z # zs \<Rightarrow> w\<lparr>zones := z\<lparr>innerHTML := h\<rparr> # zs\<rparr>)"

definition clear_zone :: "world \<Rightarrow> world" where
  "clear_zone w = write_zone [] w"

text \<open>
  \<^verbatim>\<open>
  function initWidget() {
    if (!window.$ || typeof window.$ !== 'function') {
      console.error('[ParcelShopSelector] jQuery not available')
      return
    }
    if (window.__MR_WIDGET_INITIALIZED__) {
      const zone = document.getElementById('Zone_Widget')
      if (zone) zone.innerHTML = ''
    }
    try {
      const normalizedBrand = normalizeBrandId(brandIdAPI)
      window.$('#Zone_Widget').MR_ParcelShopPicker({ ... })
      window.__MR_WIDGET_INITIALIZED__ = true
    } catch (err) {
      console.error('[ParcelShopSelector] Failed to initialize widget:', err)
      throw err
    }
  }
  \<close>
  The result is what the function throws (\<open>None\<close> when it returns) and the world it leaves.
\<close>

definition initWidget :: "plugin \<Rightarrow> Props \<Rightarrow> world \<Rightarrow> error option \<times> world" where
  "initWidget plugin p w =
     (if dollar w \<noteq> DollarFunction then (None, log [JQueryNotAvailable] w)
      else
        let w1 = (if MR_WIDGET_INITIALIZED w then clear_zone w else w) in
        case normalizeBrandId (brandIdAPI_of p) of
          Inl err \<Rightarrow> (Some err, log [WidgetInitFailed err] w1)
        | Inr normalizedBrand \<Rightarrow>
            (case plugin (widget_config p normalizedBrand) (zone_content w1) of
               (Some err, h) \<Rightarrow> (Some err, log [WidgetInitFailed err] (write_zone h w1))
             | (None, h) \<Rightarrow> (None, (write_zone h w1)\<lparr>MR_WIDGET_INITIALIZED := True\<rparr>)))"

subsection \<open>The two effects and the cleanup\<close>

text \<open>
  The first effect, with dependencies \<open>[brandIdAPI, deliveryMode]\<close>:
  \<^verbatim>\<open>
  useEffect(() => {
    if (!isBrowser()) return
    try {
      normalizeBrandId(brandIdAPI)
      validateDeliveryMode(deliveryMode)
      setIsReady(true)
    } catch (err) {
      const errorMessage = err instanceof Error ? err.message : 'Unknown error'
      setError(errorMessage)
      console.error(errorMessage)
    }
  }, [brandIdAPI, deliveryMode])
  \<close>
\<close>

definition validation_effect :: "nat \<Rightarrow> world \<Rightarrow> world" where
  "validation_effect sid w =
     (if \<not> isBrowser w then w
      else
        let p = props (sessions w ! sid) in
        case normalizeBrandId (brandIdAPI_of p) of
          Inl err \<Rightarrow> log [ConfigError err] (upd_session sid (\<lambda>s. s\<lparr>error := Some err\<rparr>) w)
        | Inr b \<Rightarrow>
            upd_session sid (\<lambda>s. s\<lparr>isReady := True\<rparr>)
              (log (validateDeliveryMode (Some (deliveryMode_of p))) w))"

text \<open>
  \<open>initializeWidget\<close> up to its \<open>await\<close>: the style is injected, \<open>loadScripts\<close> is called
  and the rest of the function is suspended on the promise.
  \<^verbatim>\<open>
  const initializeWidget = async () => {
    try {
      injectCSS()
      await loadScripts()
      initWidget()
    } catch (err) {
      const errorMessage = err instanceof Error ? err.message : 'Failed to initialize widget'
      setError(errorMessage)
      console.error('[ParcelShopSelector]', errorMessage)
      widgetInitialized.current = false
    }
  }
  \<close>
\<close>

definition initializeWidget :: "nat \<Rightarrow> Props \<Rightarrow> world \<Rightarrow> world" where
  "initializeWidget sid p w =
     (case loadScripts (injectCSS w) of
        (pr, w1) \<Rightarrow>
          w1\<lparr>awaitings := awaitings w1 @ [\<lparr>promise = pr, session = sid, captured = p, resumed = False\<rparr>]\<rparr>)"

text \<open>
  The \<open>catch\<close> of \<open>initializeWidget\<close>. React ignores a state update of an unmounted
  component; the ref is written all the same.
\<close>

definition catch_init :: "nat \<Rightarrow> error \<Rightarrow> world \<Rightarrow> world" where
  "catch_init sid err w =
     upd_session sid (\<lambda>s. s\<lparr>widgetInitialized := False\<rparr>)
       (log [InitError err]
          (upd_session sid (\<lambda>s. if mounted s then s\<lparr>error := Some err\<rparr> else s) w))"

text \<open>
  The second effect. Its closure holds \<open>isReady\<close>, \<open>error\<close> and the props of the render
  that created it; the ref is read when the effect runs.
  \<^verbatim>\<open>
  useEffect(() => {
    if (!isBrowser() || !isReady || widgetInitialized.current || error) return
    widgetInitialized.current = true
    const initializeWidget = async () => { ... }
    initializeWidget()
    return () => {
      if (isBrowser()) {
        const zone = document.getElementById('Zone_Widget')
        if (zone) zone.innerHTML = ''
        widgetInitialized.current = false
      }
    }
  }, [isReady, error, weight, nbResults, brandIdAPI, deliveryMode,
      defaultCountry, defaultPostcode, allowedCountries])
  \<close>
\<close>

definition init_effect :: "nat \<Rightarrow> bool \<Rightarrow> error option \<Rightarrow> Props \<Rightarrow> world \<Rightarrow> world" where
  "init_effect sid ready err p w =
     (if \<not> isBrowser w \<or> \<not> ready \<or> widgetInitialized (sessions w ! sid) \<or> truthy err
      then upd_session sid (\<lambda>s. s\<lparr>cleanup := False\<rparr>) w
      else
        upd_session sid (\<lambda>s. s\<lparr>cleanup := True\<rparr>)
          (initializeWidget sid p (upd_session sid (\<lambda>s. s\<lparr>widgetInitialized := True\<rparr>) w)))"

definition cleanup_fn :: "nat \<Rightarrow> world \<Rightarrow> world" where
  "cleanup_fn sid w =
     (if isBrowser w
      then upd_session sid (\<lambda>s. s\<lparr>widgetInitialized := False\<rparr>) (clear_zone w)
      else w)"

subsection \<open>React: renders, effects and their order\<close>

text \<open>
  What React does with the component. A render commits the DOM: the component returns
  the error panel when \<open>error\<close> is truthy and the \<open>Zone_Widget\<close> element otherwise (nothing
  outside a browser). After the commit, for each effect whose dependencies changed, the
  cleanup of its previous run is called (when that run returned one), then the effects
  run in the order of their declaration, each with the state and props of this render.
  A state update made by an effect leads to one more render.
\<close>

definition sync_dom :: "nat \<Rightarrow> world \<Rightarrow> world" where
  "sync_dom sid w =
     (let s = sessions w ! sid;
          shown = (isBrowser w \<and> mounted s \<and> \<not> truthy (error s));
          present = (sid \<in> set (map mount (zones w)))
      in if shown \<and> \<not> present then w\<lparr>zones := zones w @ [\<lparr>mount = sid, innerHTML = []\<rparr>]\<rparr>
         else if \<not> shown then w\<lparr>zones := filter (\<lambda>z. mount z \<noteq> sid) (zones w)\<rparr>
         else w)"

definition validation_deps :: "Props \<Rightarrow> js_string \<times> js_string" where
  "validation_deps p = (brandIdAPI_of p, deliveryMode_of p)"

definition init_deps ::
  "Props \<Rightarrow> int option \<times> int \<times> js_string \<times> js_string \<times> js_string \<times> js_string \<times> js_string" where
  "init_deps p =
     (weight p, nbResults_of p, brandIdAPI_of p, deliveryMode_of p,
      defaultCountry_of p, defaultPostcode_of p, allowedCountries_of p)"

text \<open>
  One render of session \<open>sid\<close> and its effects; \<open>ready0\<close>, \<open>err0\<close> and \<open>p0\<close> are the state
  and props of the render before.
\<close>

definition commit :: "nat \<Rightarrow> bool \<Rightarrow> error option \<Rightarrow> Props \<Rightarrow> world \<Rightarrow> world" where
  "commit sid ready0 err0 p0 w =
     (let s = sessions w ! sid;
          changed1 = (validation_deps (props s) \<noteq> validation_deps p0);
          changed2 = (isReady s \<noteq> ready0 \<or> error s \<noteq> err0 \<or> init_deps (props s) \<noteq> init_deps p0);
          w1 = sync_dom sid w;
          w2 = (if changed2 \<and> cleanup s then cleanup_fn sid w1 else w1);
          w3 = (if changed1 then validation_effect sid w2 else w2)
      in if changed2 then init_effect sid (isReady s) (error s) (props s) w3 else w3)"

text \<open>
  A render, and the further render when its effects changed the state. (The second one
  cannot change the state again: the props are the same, so the first effect does not
  run.)
\<close>

definition rerender :: "nat \<Rightarrow> bool \<Rightarrow> error option \<Rightarrow> Props \<Rightarrow> world \<Rightarrow> world" where
  "rerender sid ready0 err0 p0 w =
     (let s = sessions w ! sid;
          w1 = commit sid ready0 err0 p0 w;
          s1 = sessions w1 ! sid
      in if isReady s1 \<noteq> isReady s \<or> error s1 \<noteq> error s
         then commit sid (isReady s) (error s) (props s) w1
         else w1)"

text \<open>
  The first render of a new mount: both effects run, the second one with the initial
  state (\<open>isReady\<close> false, \<open>error\<close> null).
\<close>

definition mount_session :: "Props \<Rightarrow> world \<Rightarrow> world" where
  "mount_session p w =
     (let sid = length (sessions w);
          w1 = w\<lparr>sessions := sessions w @
                 [\<lparr>props = p, isReady = False, error = None, widgetInitialized = False,
                   cleanup = False, mounted = True\<rparr>]\<rparr>;
          w2 = sync_dom sid w1;
          w3 = validation_effect sid w2;
          w4 = init_effect sid False None p w3
      in commit sid False None p w4)"

definition update_props :: "nat \<Rightarrow> Props \<Rightarrow> world \<Rightarrow> world" where
  "update_props sid p w =
     (let s = sessions w ! sid
      in rerender sid (isReady s) (error s) (props s) (upd_session sid (\<lambda>s. s\<lparr>props := p\<rparr>) w))"

text \<open>
  Unmounting: the elements of the mount leave the document, then the cleanup of the
  second effect is called (when its last run returned one).
\<close>

definition unmount_session :: "nat \<Rightarrow> world \<Rightarrow> world" where
  "unmount_session sid w =
     (let s = sessions w ! sid;
          w1 = sync_dom sid (upd_session sid (\<lambda>s. s\<lparr>mounted := False\<rparr>) w);
          w2 = (if cleanup s then cleanup_fn sid w1 else w1)
      in upd_session sid (\<lambda>s. s\<lparr>cleanup := False\<rparr>) w2)"

text \<open>
  The rest of a suspended \<open>initializeWidget\<close>, once its promise is settled: \<open>initWidget\<close>
  with the props of its closure, or the \<open>catch\<close>; then the render that a changed
  \<open>error\<close> causes.
\<close>

definition resume :: "plugin \<Rightarrow> nat \<Rightarrow> world \<Rightarrow> world" where
  "resume plugin k w =
     (let a = awaitings w ! k; sid = session a; s = sessions w ! sid;
          w1 = w\<lparr>awaitings := (awaitings w)[k := a\<lparr>resumed := True\<rparr>]\<rparr>;
          w2 = (case promises w ! promise a of
                  Resolved \<Rightarrow>
                    (case initWidget plugin (captured a) w1 of
                       (None, w') \<Rightarrow> w'
                     | (Some err, w') \<Rightarrow> catch_init sid err w')
                | Rejected err \<Rightarrow> catch_init sid err w1
                | Pending \<Rightarrow> w1)
      in rerender sid (isReady s) (error s) (props s) w2)"

subsection \<open>Executions\<close>

text \<open>
  What can happen on the page: a mount, new props for a mount, an unmount, the load or
  the failure of an appended script, the resumption of a suspended \<open>initializeWidget\<close>
  whose promise is settled, and code outside the component assigning \<open>window.$\<close>.
  An event that cannot happen in the current world changes nothing.
\<close>

datatype event =
    Mount Props
  | Update nat Props
  | Unmount nat
  | ScriptLoaded nat
  | ScriptFailed nat
  | Resume nat
  | AssignDollar dollar

definition live :: "nat \<Rightarrow> world \<Rightarrow> bool" where
  "live sid w = (sid < length (sessions w) \<and> mounted (sessions w ! sid))"

definition resumable :: "nat \<Rightarrow> world \<Rightarrow> bool" where
  "resumable k w =
     (k < length (awaitings w) \<and> \<not> resumed (awaitings w ! k)
      \<and> promise (awaitings w ! k) < length (promises w)
      \<and> promises w ! promise (awaitings w ! k) \<noteq> Pending)"

fun step :: "plugin \<Rightarrow> world \<Rightarrow> event \<Rightarrow> world" where
  "step plugin w (Mount p) = mount_session p w"
| "step plugin w (Update sid p) = (if live sid w then update_props sid p w else w)"
| "step plugin w (Unmount sid) = (if live sid w then unmount_session sid w else w)"
| "step plugin w (ScriptLoaded i) = script_loaded i w"
| "step plugin w (ScriptFailed i) = script_failed i w"
| "step plugin w (Resume k) = (if resumable k w then resume plugin k w else w)"
| "step plugin w (AssignDollar d) = w\<lparr>dollar := d\<rparr>"

definition run :: "plugin \<Rightarrow> world \<Rightarrow> event list \<Rightarrow> world" where
  "run plugin w es = foldl (step plugin) w es"

text \<open>A page in a browser on which nothing has happened yet.\<close>

definition fresh_page :: world where
  "fresh_page =
     \<lparr> browser = True, dollar = NoDollar, MR_WIDGET_SCRIPTS_LOADED = False,
       MR_WIDGET_INITIALIZED = False, style_injected = False, body_scripts = [],
       zones = [], console = [], promises = [], awaitings = [], sessions = [] \<rparr>"

text \<open>The props of a mount that passes none: every default applies.\<close>

definition no_props :: Props where
  "no_props =
     \<lparr> weight = None, nbResults = None, brandIdAPI = None, deliveryMode = None,
       defaultCountry = None, defaultPostcode = None, allowedCountries = None \<rparr>"

text \<open>A plugin that never throws and leaves some markup in the element.\<close>

definition sample_plugin :: plugin where
  "sample_plugin cfg content = (None, js ''<div class=MR-Widget>'')"

text \<open>A plugin that always throws an \<open>Error\<close>, leaving the element as it found it.\<close>

definition failing_plugin :: plugin where
  "failing_plugin cfg content =
     (Some (PluginError (js ''boom'')), (case content of None \<Rightarrow> [] | Some h \<Rightarrow> h))"

text \<open>A plugin that writes the delivery mode it was given into the element.\<close>

definition echo_plugin :: plugin where
  "echo_plugin cfg content = (None, ColLivMod cfg)"

text \<open>
  The number of times session \<open>sid\<close> has begun the chain \<open>injectCSS\<close>, \<open>loadScripts\<close>,
  \<open>initWidget\<close>: its calls of \<open>initializeWidget\<close>.
\<close>

definition chains :: "nat \<Rightarrow> world \<Rightarrow> nat" where
  "chains sid w = length (filter (\<lambda>a. session a = sid) (awaitings w))"

section \<open>createShipment\<close>

text \<open>
  The context and the output options of a shipment request. An absent optional field is
  \<open>None\<close>.
\<close>

record ShipContext =
  Login :: js_string
  Password :: js_string
  CustomerId :: js_string
  Culture :: "js_string option"
  VersionAPI :: "js_string option"

record ShipOutputOptions =
  OutputFormat :: "js_string option"
  OutputType :: "js_string option"

datatype api_version = V1 | V2

text \<open>
  The shipment, as far as \<open>createShipment\<close> reads it. The values it only copies (the
  attributes of the delivery mode, of the collection mode and of the weight, the two
  addresses, every other field) are of an open type \<open>'o\<close>. \<open>Parcels\<close> and its \<open>Parcel\<close>
  are read through, so it matters whether they are there at run time; \<open>Depth\<close> and
  \<open>Length\<close> are tested for truthiness.
\<close>

record 'o ParcelIn =
  Parcel_Weight :: 'o
  Parcel_Depth :: "'o option"
  Parcel_Length :: "'o option"
  Parcel_other :: 'o

record 'o ParcelsIn =
  Parcel :: "'o ParcelIn option"

record 'o Shipment =
  DeliveryMode :: 'o
  CollectionMode :: 'o
  Parcels :: "'o ParcelsIn option"
  Sender :: 'o
  Recipient :: 'o
  Shipment_other :: 'o

text \<open>The parameter object; its field \<open>context\<close> is called \<open>shipContext\<close> here.\<close>

record 'o ShipParams =
  shipment :: "'o Shipment"
  shipContext :: ShipContext
  outputOptions :: "ShipOutputOptions option"
  apiVersion :: "api_version option"
  apiUrl :: "js_string option"

text \<open>
  The object handed to \<open>generateXML\<close>: the context and the output options with their
  defaults filled in, and the reshaped shipment. In the reshaped shipment and parcel the
  spread of the original comes first and the fields written after it replace its own.
\<close>

record 'o ParcelOut =
  Parcel_spread :: "'o ParcelIn"
  Weight_attributes :: 'o
  Depth_attributes :: "'o option"
  Length_attributes :: "'o option"

record 'o ShipmentOut =
  Shipment_spread :: "'o Shipment"
  DeliveryMode_attributes :: 'o
  CollectionMode_attributes :: 'o
  Parcels_Parcel :: "'o ParcelOut"
  Sender_Address :: 'o
  Recipient_Address :: 'o

record 'o ShipmentCreationRequest =
  Context_Login :: js_string
  Context_Password :: js_string
  Context_CustomerId :: js_string
  Context_Culture :: js_string
  Context_VersionAPI :: js_string
  OutputOptions_OutputFormat :: js_string
  OutputOptions_OutputType :: js_string
  ShipmentsList_Shipment :: "'o ShipmentOut"

text \<open>The fields of the response that \<open>createShipment\<close> reads.\<close>

record status_field =
  levelField :: "js_string option"
  messageField :: js_string

record shipment_field =
  shipmentNumberField :: js_string
  outputField :: js_string

record response_data =
  statusListField :: "status_field list option"
  shipmentsListField :: "shipment_field list"

record CreateShipmentResponse =
  sendingNumber :: js_string
  etiquetteLink :: js_string
  rawResponse :: response_data

text \<open>
  What \<open>createShipment\<close> throws: a validation error of one of the three schemas, the
  error for placeholder credentials, the \<open>TypeError\<close> of reading a property of an absent
  \<open>Parcels\<close> or \<open>Parcel\<close> while the request is built, whatever \<open>generateXML\<close> throws,
  the rejection of the HTTP request, the error the API reports, and the \<open>TypeError\<close> of
  reading the first shipment of an empty list.
\<close>

datatype ship_error =
    InvalidContext
  | InvalidShipment
  | InvalidOutputOptions
  | LoginOrPasswordMissing
  | ParcelMissing
  | GenerateXMLError
  | RequestRejected
  | ApiError js_string
  | NoShipmentInResponse

text \<open>
  The three schemas (\<open>./schemas\<close>), \<open>generateXML\<close> (\<open>../lib\<close>) and \<open>axios\<close> are not among
  the sources at hand. They are parameters: whether each \<open>parse\<close> accepts its argument,
  the serialisation (\<open>None\<close> when it throws), and the answer of the server to a POST
  (\<open>None\<close> when the request is rejected).
\<close>

record ('o, 'x) ship_env =
  ShipContextSchema :: "ShipContext \<Rightarrow> bool"
  ShipmentSchema :: "'o Shipment \<Rightarrow> bool"
  ShipOutputOptionsSchema :: "ShipOutputOptions option \<Rightarrow> bool"
  generateXML :: "'o ShipmentCreationRequest \<Rightarrow> 'x option"
  axios_post :: "js_string \<Rightarrow> 'x \<Rightarrow> response_data option"

text \<open>\<open>a || b\<close> on an optional string: \<open>a\<close> unless it is absent or empty.\<close>

definition or_else :: "js_string option \<Rightarrow> js_string \<Rightarrow> js_string" where
  "or_else a b = (case a of None \<Rightarrow> b | Some v \<Rightarrow> if v = [] then b else v)"

text \<open>
  \<open>toLowerCase\<close> on the letters A to Z (no other code unit becomes a letter of
  \<open>error\<close>), and \<open>includes\<close>.
\<close>

definition toLowerCase :: "js_string \<Rightarrow> js_string" where
  "toLowerCase s = map (\<lambda>c. if 0x41 \<le> c \<and> c \<le> 0x5A then c + 0x20 else c) s"

fun js_includes :: "js_string \<Rightarrow> js_string \<Rightarrow> bool" where
  "js_includes [] sub = (sub = [])"
| "js_includes (c # cs) sub = (take (length sub) (c # cs) = sub \<or> js_includes cs sub)"

definition is_error_status :: "status_field \<Rightarrow> bool" where
  "is_error_status e =
     (case levelField e of None \<Rightarrow> False | Some l \<Rightarrow> js_includes (toLowerCase l) (js ''error''))"

text \<open>
  The part of \<open>createShipment\<close> after the \<open>await\<close>:
  \<^verbatim>\<open>
  const eventualError = response.data.statusListField?.find(
    e => e.levelField?.toLowerCase().includes('error'))
  if (eventualError) throw new Error(`An error happened: "${eventualError.messageField}".`)
  const sendingNumber = response.data.shipmentsListField[0].shipmentNumberField
  const etiquetteLink = response.data.shipmentsListField[0].labelListField.labelField.outputField
  return { sendingNumber, etiquetteLink, rawResponse: response.data }
  \<close>
\<close>

definition read_response :: "response_data \<Rightarrow> ship_error + CreateShipmentResponse" where
  "read_response d =
     (case find is_error_status (case statusListField d of None \<Rightarrow> [] | Some l \<Rightarrow> l) of
        Some eventualError \<Rightarrow> Inl (ApiError (messageField eventualError))
      | None \<Rightarrow>
          (case shipmentsListField d of
             [] \<Rightarrow> Inl NoShipmentInResponse
           | first # rest \<Rightarrow>
               Inr \<lparr> sendingNumber = shipmentNumberField first,
                     etiquetteLink = outputField first,
                     rawResponse = d \<rparr>))"

text \<open>
  The shipment of the request:
  \<^verbatim>\<open>
  Shipment: {
    ...shipment,
    DeliveryMode: { $: { ...shipment.DeliveryMode } },
    CollectionMode: { $: { ...shipment.CollectionMode } },
    Parcels: {
      Parcel: {
        ...shipment.Parcels.Parcel,
        Weight: { $: { ...shipment.Parcels.Parcel.Weight } },
        ...(shipment.Parcels.Parcel.Depth && { Depth: { $: { ...shipment.Parcels.Parcel.Depth } } }),
        ...(shipment.Parcels.Parcel.Length && { Length: { $: { ...shipment.Parcels.Parcel.Length } } }),
      },
    },
    Sender: { Address: { ...shipment.Sender } },
    Recipient: { Address: { ...shipment.Recipient } },
  }
  \<close>
  \<open>shipment.Parcels.Parcel\<close> throws when \<open>Parcels\<close> is absent, and
  \<open>shipment.Parcels.Parcel.Weight\<close> throws when \<open>Parcel\<close> is.
\<close>

definition reshape_shipment :: "'o Shipment \<Rightarrow> ship_error + 'o ShipmentOut" where
  "reshape_shipment sh =
     (case Parcels sh of
        None \<Rightarrow> Inl ParcelMissing
      | Some ps \<Rightarrow>
          (case Parcel ps of
             None \<Rightarrow> Inl ParcelMissing
           | Some pc \<Rightarrow>
               Inr \<lparr> Shipment_spread = sh,
                     DeliveryMode_attributes = DeliveryMode sh,
                     CollectionMode_attributes = CollectionMode sh,
                     Parcels_Parcel =
                       \<lparr> Parcel_spread = pc,
                         Weight_attributes = Parcel_Weight pc,
                         Depth_attributes = Parcel_Depth pc,
                         Length_attributes = Parcel_Length pc \<rparr>,
                     Sender_Address = Sender sh,
                     Recipient_Address = Recipient sh \<rparr>))"

text \<open>
  The object \<open>data\<close>; building it throws when reshaping the shipment does.
\<close>

definition request_data :: "'o ShipParams \<Rightarrow> ship_error + 'o ShipmentCreationRequest" where
  "request_data ps =
     (case reshape_shipment (shipment ps) of
        Inl err \<Rightarrow> Inl err
      | Inr reshaped \<Rightarrow>
          Inr \<lparr> Context_Login = Login (shipContext ps),
                Context_Password = Password (shipContext ps),
                Context_CustomerId = CustomerId (shipContext ps),
                Context_Culture = or_else (Culture (shipContext ps)) (js ''fr-FR''),
                Context_VersionAPI = or_else (VersionAPI (shipContext ps)) (js ''1.0''),
                OutputOptions_OutputFormat =
                  or_else (case outputOptions ps of None \<Rightarrow> None | Some opts \<Rightarrow> OutputFormat opts)
                    (js ''A4''),
                OutputOptions_OutputType =
                  or_else (case outputOptions ps of None \<Rightarrow> None | Some opts \<Rightarrow> OutputType opts)
                    (js ''PdfUrl''),
                ShipmentsList_Shipment = reshaped \<rparr>)"

text \<open>
  \<^verbatim>\<open>
  const API_URL = apiUrl || (apiVersion === 'V1'
      ? 'https://api.mondialrelay.com/WebService'
      : 'https://connect-api.mondialrelay.com/api/shipment')
  \<close>
\<close>

definition API_URL :: "'o ShipParams \<Rightarrow> js_string" where
  "API_URL ps =
     or_else (apiUrl ps)
       (if apiVersion ps = Some V1 then js ''https://api.mondialrelay.com/WebService''
        else js ''https://connect-api.mondialrelay.com/api/shipment'')"

text \<open>
  \<^verbatim>\<open>
  export default async function createShipment({ context, shipment, outputOptions,
      apiVersion = 'V2', apiUrl }) {
    ShipContextSchema.parse(context)
    ShipmentSchema.parse(shipment)
    ShipOutputOptionsSchema.parse(outputOptions)
    if (context.Login === 'fill in your login here' ||
        context.Password === 'fill in your password here') {
      throw new Error('Login or Password is missing, please fill them in.')
    }
    const data = { ShipmentCreationRequest: { ... } }
    const xml = generateXML(data)
    const API_URL = ...
    const response = await axios.post(API_URL, xml, { headers: { ... } })
    ...
  }
  \<close>
  The result is the list of HTTP requests issued (address and body), and what the
  function throws or returns. Between the four checks and the request, building \<open>data\<close>
  and \<open>generateXML\<close> may throw; then no request is issued.
\<close>

definition createShipment ::
  "('o, 'x) ship_env \<Rightarrow> 'o ShipParams \<Rightarrow>
     (js_string \<times> 'x) list \<times> (ship_error + CreateShipmentResponse)" where
  "createShipment env ps =
     (if \<not> ShipContextSchema env (shipContext ps) then ([], Inl InvalidContext)
      else if \<not> ShipmentSchema env (shipment ps) then ([], Inl InvalidShipment)
      else if \<not> ShipOutputOptionsSchema env (outputOptions ps) then ([], Inl InvalidOutputOptions)
      else if Login (shipContext ps) = js ''fill in your login here''
              \<or> Password (shipContext ps) = js ''fill in your password here''
        then ([], Inl LoginOrPasswordMissing)
      else
        case request_data ps of
          Inl err \<Rightarrow> ([], Inl err)
        | Inr data \<Rightarrow>
            (case generateXML env data of
               None \<Rightarrow> ([], Inl GenerateXMLError)
             | Some xml \<Rightarrow>
                 ([(API_URL ps, xml)],
                  case axios_post env (API_URL ps) xml of
                    None \<Rightarrow> Inl RequestRejected
                  | Some d \<Rightarrow> read_response d)))"

text \<open>
  An environment for trying the function out: schemas that accept everything, the
  identity as serialisation and a server that answers with one shipment; a shipment with
  its parcel, from which one without \<open>Parcels\<close> is made.
\<close>

definition sample_env :: "(nat, nat ShipmentCreationRequest) ship_env" where
  "sample_env =
     \<lparr> ShipContextSchema = (\<lambda>c. True),
       ShipmentSchema = (\<lambda>s. True),
       ShipOutputOptionsSchema = (\<lambda>opts. True),
       generateXML = (\<lambda>d. Some d),
       axios_post = (\<lambda>url xml. Some
         \<lparr> statusListField = None,
           shipmentsListField = [\<lparr>shipmentNumberField = js ''31236189'', outputField = js ''label.pdf''\<rparr>] \<rparr>) \<rparr>"

definition sample_shipment :: "nat Shipment" where
  "sample_shipment =
     \<lparr> DeliveryMode = 1, CollectionMode = 2,
       Parcels = Some \<lparr> Parcel = Some \<lparr> Parcel_Weight = 3, Parcel_Depth = None,
                                        Parcel_Length = Some 4, Parcel_other = 5 \<rparr> \<rparr>,
       Sender = 6, Recipient = 7, Shipment_other = 8 \<rparr>"

definition sample_params :: "js_string \<Rightarrow> js_string \<Rightarrow> nat Shipment \<Rightarrow> nat ShipParams" where
  "sample_params login password sh =
     \<lparr> shipment = sh,
       shipContext = \<lparr> Login = login, Password = password, CustomerId = js ''BDTEST'',
                   Culture = None, VersionAPI = None \<rparr>,
       outputOptions = None, apiVersion = None, apiUrl = None \<rparr>"

section \<open>Properties of the string helpers\<close>

lemma SPACE_white: "is_white_space SPACE"
  by (simp add: is_white_space_def SPACE_def)

lemma padEnd_single: "padEnd s n [c] = s @ replicate (n - length s) c"
proof -
  have "concat (replicate k [c]) = replicate k c" for k
    by (induction k) simp_all
  then show ?thesis by (simp add: padEnd_def)
qed

lemma trim_Nil: "trim [] = []"
  by (simp add: trim_def)

lemma trim_hd: "trim s \<noteq> [] \<Longrightarrow> \<not> is_white_space (hd (trim s))"
proof -
  assume ne: "trim s \<noteq> []"
  let ?d = "dropWhile is_white_space s"
  let ?e = "dropWhile is_white_space (rev ?d)"
  from ne have e: "?e \<noteq> []" by (simp add: trim_def)
  have d: "?d \<noteq> []"
  proof
    assume "?d = []"
    then have "?e = []" by (simp only: rev.simps(1) dropWhile.simps(1))
    with e show False by simp
  qed
  have "?e = rev (trim s)" by (simp add: trim_def)
  then have "set (trim s) = set ?e" by simp
  have suffix: "\<exists>zs. rev ?d = zs @ ?e"
    by (metis takeWhile_dropWhile_id)
  then obtain zs where "rev ?d = zs @ ?e" ..
  then have "?d = rev ?e @ rev zs" by (metis rev_append rev_rev_ident)
  then have "hd ?d = hd (rev ?e)" using e by (metis hd_append2 rev_is_Nil_conv)
  moreover have "\<not> is_white_space (hd ?d)" using d by (rule hd_dropWhile)
  ultimately show ?thesis by (simp add: trim_def)
qed

lemma trim_last: "trim s \<noteq> [] \<Longrightarrow> \<not> is_white_space (last (trim s))"
proof -
  assume ne: "trim s \<noteq> []"
  let ?e = "dropWhile is_white_space (rev (dropWhile is_white_space s))"
  from ne have e: "?e \<noteq> []" by (simp add: trim_def)
  then have "\<not> is_white_space (hd ?e)" by (rule hd_dropWhile)
  moreover have "last (trim s) = hd ?e" using e by (simp add: trim_def last_rev)
  ultimately show ?thesis by simp
qed

lemma dropWhile_keeps: "xs \<noteq> [] \<Longrightarrow> \<not> P (hd xs) \<Longrightarrow> dropWhile P xs = xs"
  by (cases xs) simp_all

lemma trim_padded:
  assumes "t \<noteq> []" "\<not> is_white_space (hd t)" "\<not> is_white_space (last t)"
  shows "trim (t @ replicate n SPACE) = t"
proof -
  from assms have front: "dropWhile is_white_space (t @ replicate n SPACE) = t @ replicate n SPACE"
    by (simp add: dropWhile_keeps)
  have "dropWhile is_white_space (replicate n SPACE @ rev t) = dropWhile is_white_space (rev t)"
    by (simp add: dropWhile_append SPACE_white)
  also have "\<dots> = rev t"
  proof -
    from assms have "rev t \<noteq> []" "\<not> is_white_space (hd (rev t))"
      by (simp_all add: hd_rev)
    then show ?thesis by (rule dropWhile_keeps)
  qed
  finally show ?thesis by (simp add: trim_def front)
qed

section \<open>Claims about \<open>normalizeBrandId\<close>\<close>

text \<open>
  C4. A brand identifier whose trimmed length is between 1 and 8 is normalised to exactly 8
  code units: the trimmed input followed by spaces. A trimmed length above 8 throws the
  too-long error (carrying that length and the trimmed text). The empty string throws the
  "is required" error and a non-empty string of white space only throws the "cannot be
  empty" error: the two errors of the source for an empty identifier.
\<close>

theorem normalizeBrandId_cases:
  "(1 \<le> length (trim brand) \<and> length (trim brand) \<le> 8 \<longrightarrow>
      normalizeBrandId brand = Inr (trim brand @ replicate (8 - length (trim brand)) SPACE)
      \<and> length (trim brand @ replicate (8 - length (trim brand)) SPACE) = 8)
   \<and> (8 < length (trim brand) \<longrightarrow>
      normalizeBrandId brand = Inl (BrandIdTooLong (length (trim brand)) (trim brand)))
   \<and> (brand = [] \<longrightarrow> normalizeBrandId brand = Inl BrandIdRequired)
   \<and> (brand \<noteq> [] \<and> trim brand = [] \<longrightarrow> normalizeBrandId brand = Inl BrandIdEmpty)"
proof -
  have nonempty: "brand \<noteq> []" if "1 \<le> length (trim brand)"
    using that by (auto simp: trim_Nil)
  show ?thesis
    using nonempty by (auto simp: normalizeBrandId_def Let_def padEnd_single trim_Nil)
qed

theorem normalizeBrandId_cases_witness:
  "normalizeBrandId (js ''BDTEST'') = Inr (js ''BDTEST  '')
   \<and> normalizeBrandId (js ''TOOLONGID'') = Inl (BrandIdTooLong 9 (js ''TOOLONGID''))
   \<and> normalizeBrandId [] = Inl BrandIdRequired
   \<and> normalizeBrandId (js ''   '') = Inl BrandIdEmpty"
proof -
  have t1: "trim (js ''BDTEST'') = js ''BDTEST''"
    by (simp add: trim_def js_def is_white_space_def)
  have t2: "trim (js ''TOOLONGID'') = js ''TOOLONGID''"
    by (simp add: trim_def js_def is_white_space_def)
  have t3: "trim (js ''   '') = []"
    by (simp add: trim_def js_def is_white_space_def)
  have h1: "1 \<le> length (trim (js ''BDTEST'')) \<and> length (trim (js ''BDTEST'')) \<le> 8"
    by (simp add: t1) (simp add: js_def)
  have h2: "8 < length (trim (js ''TOOLONGID''))"
    by (simp add: t2) (simp add: js_def)
  have h4: "js ''   '' \<noteq> [] \<and> trim (js ''   '') = []"
    by (simp add: t3) (simp add: js_def)
  from h1 normalizeBrandId_cases [of "js ''BDTEST''"]
  have "normalizeBrandId (js ''BDTEST'') = Inr (js ''BDTEST  '')"
    by (simp add: t1) (simp add: js_def SPACE_def numeral_2_eq_2)
  moreover from h2 normalizeBrandId_cases [of "js ''TOOLONGID''"]
  have "normalizeBrandId (js ''TOOLONGID'') = Inl (BrandIdTooLong 9 (js ''TOOLONGID''))"
    by (simp add: t2) (simp add: js_def)
  moreover from normalizeBrandId_cases [of "[]"]
  have "normalizeBrandId [] = Inl BrandIdRequired" by simp
  moreover from h4 normalizeBrandId_cases [of "js ''   ''"]
  have "normalizeBrandId (js ''   '') = Inl BrandIdEmpty" by simp
  ultimately show ?thesis by simp
qed

text \<open>
  C5. Normalisation is idempotent: a result of \<open>normalizeBrandId\<close> is normalised to
  itself.
\<close>

theorem normalizeBrandId_idempotent:
  assumes "normalizeBrandId x = Inr y"
  shows "normalizeBrandId y = Inr y"
proof -
  let ?t = "trim x"
  from assms have len: "length ?t \<le> 8" and ne: "?t \<noteq> []"
    and y: "y = ?t @ replicate (8 - length ?t) SPACE"
    by (auto simp: normalizeBrandId_def Let_def padEnd_single split: if_splits)
  have ty: "trim y = ?t"
    unfolding y using ne trim_hd [OF ne] trim_last [OF ne] by (rule trim_padded)
  from ne y have "y \<noteq> []" by simp
  with ty len ne y show ?thesis
    by (simp add: normalizeBrandId_def Let_def padEnd_single)
qed

theorem normalizeBrandId_idempotent_witness:
  "normalizeBrandId (js '' BDTEST'') = Inr (js ''BDTEST  '')
   \<and> normalizeBrandId (js ''BDTEST  '') = Inr (js ''BDTEST  '')"
proof -
  have t: "trim (js '' BDTEST'') = js ''BDTEST''"
    by (simp add: trim_def js_def is_white_space_def)
  have h: "normalizeBrandId (js '' BDTEST'') = Inr (js ''BDTEST  '')"
    by (simp add: normalizeBrandId_def Let_def padEnd_single t) (simp add: js_def SPACE_def numeral_2_eq_2)
  from h normalizeBrandId_idempotent [OF h] show ?thesis by simp
qed

section \<open>How the primitives act on the parts of the world\<close>

lemma upd_session_frame [simp]:
  "awaitings (upd_session sid f w) = awaitings w"
  "browser (upd_session sid f w) = browser w"
  "dollar (upd_session sid f w) = dollar w"
  "MR_WIDGET_SCRIPTS_LOADED (upd_session sid f w) = MR_WIDGET_SCRIPTS_LOADED w"
  "MR_WIDGET_INITIALIZED (upd_session sid f w) = MR_WIDGET_INITIALIZED w"
  "body_scripts (upd_session sid f w) = body_scripts w"
  "promises (upd_session sid f w) = promises w"
  "zones (upd_session sid f w) = zones w"
  "console (upd_session sid f w) = console w"
  "sessions (upd_session sid f w) = (sessions w)[sid := f (sessions w ! sid)]"
  by (simp_all add: upd_session_def)

lemma log_frame [simp]:
  "awaitings (log es w) = awaitings w"
  "browser (log es w) = browser w"
  "dollar (log es w) = dollar w"
  "MR_WIDGET_SCRIPTS_LOADED (log es w) = MR_WIDGET_SCRIPTS_LOADED w"
  "MR_WIDGET_INITIALIZED (log es w) = MR_WIDGET_INITIALIZED w"
  "sessions (log es w) = sessions w"
  "zones (log es w) = zones w"
  "console (log es w) = console w @ es"
  by (simp_all add: log_def)

lemma write_zone_frame [simp]:
  "awaitings (write_zone h w) = awaitings w"
  "browser (write_zone h w) = browser w"
  "dollar (write_zone h w) = dollar w"
  "MR_WIDGET_SCRIPTS_LOADED (write_zone h w) = MR_WIDGET_SCRIPTS_LOADED w"
  "MR_WIDGET_INITIALIZED (write_zone h w) = MR_WIDGET_INITIALIZED w"
  "body_scripts (write_zone h w) = body_scripts w"
  "promises (write_zone h w) = promises w"
  "sessions (write_zone h w) = sessions w"
  "console (write_zone h w) = console w"
  "zones (write_zone h w) = (case zones w of [] \<Rightarrow> [] | z # zs \<Rightarrow> z\<lparr>innerHTML := h\<rparr> # zs)"
  by (simp_all add: write_zone_def split: list.splits)

lemma sync_dom_frame [simp]:
  "awaitings (sync_dom sid w) = awaitings w"
  "browser (sync_dom sid w) = browser w"
  "dollar (sync_dom sid w) = dollar w"
  "MR_WIDGET_SCRIPTS_LOADED (sync_dom sid w) = MR_WIDGET_SCRIPTS_LOADED w"
  "MR_WIDGET_INITIALIZED (sync_dom sid w) = MR_WIDGET_INITIALIZED w"
  "body_scripts (sync_dom sid w) = body_scripts w"
  "promises (sync_dom sid w) = promises w"
  "sessions (sync_dom sid w) = sessions w"
  "console (sync_dom sid w) = console w"
  by (simp_all add: sync_dom_def Let_def)

lemma cleanup_fn_frame [simp]:
  "awaitings (cleanup_fn sid w) = awaitings w"
  "browser (cleanup_fn sid w) = browser w"
  "dollar (cleanup_fn sid w) = dollar w"
  "MR_WIDGET_SCRIPTS_LOADED (cleanup_fn sid w) = MR_WIDGET_SCRIPTS_LOADED w"
  "MR_WIDGET_INITIALIZED (cleanup_fn sid w) = MR_WIDGET_INITIALIZED w"
  "body_scripts (cleanup_fn sid w) = body_scripts w"
  "promises (cleanup_fn sid w) = promises w"
  "sessions (cleanup_fn sid w) =
     (if browser w then (sessions w)[sid := (sessions w ! sid)\<lparr>widgetInitialized := False\<rparr>]
      else sessions w)"
  by (simp_all add: cleanup_fn_def clear_zone_def isBrowser_def)

lemma injectCSS_frame [simp]:
  "awaitings (injectCSS w) = awaitings w"
  "sessions (injectCSS w) = sessions w"
  "browser (injectCSS w) = browser w"
  by (simp_all add: injectCSS_def)

lemma loadScripts_frame [simp]:
  "awaitings (snd (loadScripts w)) = awaitings w"
  "sessions (snd (loadScripts w)) = sessions w"
  "browser (snd (loadScripts w)) = browser w"
  by (simp_all add: loadScripts_def loadMRWidget_def settle_def append_script_def Let_def)

lemma initializeWidget_frame [simp]:
  "awaitings (initializeWidget sid p w) =
     awaitings w @ [\<lparr>promise = fst (loadScripts (injectCSS w)), session = sid,
                     captured = p, resumed = False\<rparr>]"
  "sessions (initializeWidget sid p w) = sessions w"
  "browser (initializeWidget sid p w) = browser w"
  by (simp_all add: initializeWidget_def case_prod_beta)

lemma validation_effect_frame [simp]:
  "awaitings (validation_effect sid w) = awaitings w"
  "browser (validation_effect sid w) = browser w"
  by (simp_all add: validation_effect_def Let_def split: sum.splits)

lemma sessions_validation_effect:
  "sessions (validation_effect sid w) =
     (if \<not> browser w then sessions w
      else case normalizeBrandId (brandIdAPI_of (props (sessions w ! sid))) of
             Inl err \<Rightarrow> (sessions w)[sid := (sessions w ! sid)\<lparr>error := Some err\<rparr>]
           | Inr b \<Rightarrow> (sessions w)[sid := (sessions w ! sid)\<lparr>isReady := True\<rparr>])"
  by (simp add: validation_effect_def isBrowser_def Let_def split: sum.splits)

lemma sessions_init_effect:
  "sid < length (sessions w) \<Longrightarrow>
   sessions (init_effect sid ready err p w) =
     (if \<not> browser w \<or> \<not> ready \<or> widgetInitialized (sessions w ! sid) \<or> truthy err
      then (sessions w)[sid := (sessions w ! sid)\<lparr>cleanup := False\<rparr>]
      else (sessions w)[sid := (sessions w ! sid)\<lparr>widgetInitialized := True, cleanup := True\<rparr>])"
  by (simp add: init_effect_def isBrowser_def)

lemma browser_init_effect [simp]: "browser (init_effect sid ready err p w) = browser w"
  by (simp add: init_effect_def)

lemma length_sessions_frame [simp]:
  "length (sessions (validation_effect sid w)) = length (sessions w)"
  "length (sessions (init_effect sid ready err p w)) = length (sessions w)"
  by (simp_all add: sessions_validation_effect init_effect_def split: sum.splits)

lemma length_sessions_commit [simp]:
  "length (sessions (commit sid ready0 err0 p0 w)) = length (sessions w)"
  by (simp add: commit_def Let_def)

lemma brand_error_truthy: "normalizeBrandId b = Inl err \<Longrightarrow> truthy (Some err)"
  by (auto simp: normalizeBrandId_def Let_def split: if_splits)

section \<open>Renders that begin a chain\<close>

lemma chains_frame [simp]:
  "chains sid' (sync_dom sid w) = chains sid' w"
  "chains sid' (cleanup_fn sid w) = chains sid' w"
  "chains sid' (validation_effect sid w) = chains sid' w"
  "chains sid' (upd_session sid f w) = chains sid' w"
  by (simp_all add: chains_def)

text \<open>
  The second effect begins a chain exactly when its guard lets it through, and then the
  chain belongs to its own session.
\<close>

lemma chains_init_effect:
  "chains sid' (init_effect sid ready err p w) =
     chains sid' w +
       (if isBrowser w \<and> ready \<and> \<not> widgetInitialized (sessions w ! sid) \<and> \<not> truthy err
           \<and> sid' = sid then 1 else 0)"
  by (simp add: chains_def init_effect_def isBrowser_def)

lemma flag_validation_effect:
  "sid < length (sessions w) \<Longrightarrow>
   widgetInitialized (sessions (validation_effect sid w) ! sid) = widgetInitialized (sessions w ! sid)"
  by (simp add: sessions_validation_effect split: sum.splits)

lemma chains_commit:
  assumes "sid < length (sessions w)"
  shows "chains sid (commit sid ready0 err0 p0 w) =
     chains sid w +
       (if (isReady (sessions w ! sid) \<noteq> ready0 \<or> error (sessions w ! sid) \<noteq> err0
              \<or> init_deps (props (sessions w ! sid)) \<noteq> init_deps p0)
           \<and> browser w \<and> isReady (sessions w ! sid) \<and> \<not> truthy (error (sessions w ! sid))
           \<and> (cleanup (sessions w ! sid) \<or> \<not> widgetInitialized (sessions w ! sid)) then 1 else 0)"
proof -
  define s where "s = sessions w ! sid"
  define changed1 where "changed1 \<longleftrightarrow> validation_deps (props s) \<noteq> validation_deps p0"
  define changed2 where
    "changed2 \<longleftrightarrow> isReady s \<noteq> ready0 \<or> error s \<noteq> err0 \<or> init_deps (props s) \<noteq> init_deps p0"
  define w2 where
    "w2 = (if changed2 \<and> cleanup s then cleanup_fn sid (sync_dom sid w) else sync_dom sid w)"
  define w3 where "w3 = (if changed1 then validation_effect sid w2 else w2)"
  have len2: "sid < length (sessions w2)" using assms by (simp add: w2_def)
  have flag2: "widgetInitialized (sessions w2 ! sid) =
      (if changed2 \<and> cleanup s \<and> browser w then False else widgetInitialized s)"
    using assms by (auto simp: w2_def s_def)
  have flag3: "widgetInitialized (sessions w3 ! sid) = widgetInitialized (sessions w2 ! sid)"
    using len2 by (cases changed1) (simp_all add: w3_def flag_validation_effect)
  have br3: "browser w3 = browser w" by (simp add: w3_def w2_def)
  have ch3: "chains sid w3 = chains sid w" by (simp add: w3_def w2_def)
  show ?thesis
  proof (cases changed2)
    case False
    then have "commit sid ready0 err0 p0 w = w3"
      by (simp add: commit_def Let_def w3_def w2_def changed1_def changed2_def s_def)
    with False ch3 show ?thesis by (simp add: changed2_def s_def)
  next
    case True
    then have "commit sid ready0 err0 p0 w = init_effect sid (isReady s) (error s) (props s) w3"
      by (simp add: commit_def Let_def w3_def w2_def changed1_def changed2_def s_def)
    then have "chains sid (commit sid ready0 err0 p0 w) =
       chains sid w + (if browser w \<and> isReady s \<and> \<not> widgetInitialized (sessions w3 ! sid)
                          \<and> \<not> truthy (error s) then 1 else 0)"
      by (simp add: chains_init_effect isBrowser_def br3 ch3)
    with True flag2 flag3 show ?thesis by (auto simp: changed2_def s_def)
  qed
qed

lemma state_validation_effect:
  assumes "sid < length (sessions w)"
  shows "(isReady (sessions w ! sid) \<longrightarrow> isReady (sessions (validation_effect sid w) ! sid))
     \<and> (error (sessions (validation_effect sid w) ! sid) = error (sessions w ! sid)
          \<or> truthy (error (sessions (validation_effect sid w) ! sid)))"
  using assms
  by (auto simp: sessions_validation_effect brand_error_truthy split: sum.splits)

lemma state_init_effect:
  assumes "sid < length (sessions w)"
  shows "isReady (sessions (init_effect sid ready err p w) ! sid) = isReady (sessions w ! sid)"
    and "error (sessions (init_effect sid ready err p w) ! sid) = error (sessions w ! sid)"
  using assms by (simp_all add: sessions_init_effect)

lemma state_commit:
  assumes "sid < length (sessions w)"
  shows "(isReady (sessions w ! sid) \<longrightarrow> isReady (sessions (commit sid ready0 err0 p0 w) ! sid))
     \<and> (error (sessions (commit sid ready0 err0 p0 w) ! sid) = error (sessions w ! sid)
          \<or> truthy (error (sessions (commit sid ready0 err0 p0 w) ! sid)))"
proof -
  define s where "s = sessions w ! sid"
  define changed1 where "changed1 \<longleftrightarrow> validation_deps (props s) \<noteq> validation_deps p0"
  define changed2 where
    "changed2 \<longleftrightarrow> isReady s \<noteq> ready0 \<or> error s \<noteq> err0 \<or> init_deps (props s) \<noteq> init_deps p0"
  define w2 where
    "w2 = (if changed2 \<and> cleanup s then cleanup_fn sid (sync_dom sid w) else sync_dom sid w)"
  define w3 where "w3 = (if changed1 then validation_effect sid w2 else w2)"
  define w4 where "w4 = (if changed2 then init_effect sid (isReady s) (error s) (props s) w3 else w3)"
  have c: "commit sid ready0 err0 p0 w = w4"
    by (simp add: commit_def Let_def w4_def w3_def w2_def changed1_def changed2_def s_def)
  have len2: "sid < length (sessions w2)" using assms by (simp add: w2_def)
  have s2: "isReady (sessions w2 ! sid) = isReady s" "error (sessions w2 ! sid) = error s"
    using assms by (auto simp: w2_def s_def)
  have len3: "sid < length (sessions w3)" using len2 by (simp add: w3_def)
  have s3: "(isReady s \<longrightarrow> isReady (sessions w3 ! sid))
     \<and> (error (sessions w3 ! sid) = error s \<or> truthy (error (sessions w3 ! sid)))"
    using state_validation_effect [OF len2] s2 by (cases changed1) (auto simp: w3_def)
  have s4: "isReady (sessions w4 ! sid) = isReady (sessions w3 ! sid)"
      "error (sessions w4 ! sid) = error (sessions w3 ! sid)"
    using state_init_effect [OF len3] by (cases changed2; simp add: w4_def)+
  from s3 s4 show ?thesis unfolding c s_def by simp
qed

text \<open>A render after which nothing has changed runs no effect.\<close>

lemma rerender_same:
  "rerender sid (isReady (sessions w ! sid)) (error (sessions w ! sid)) (props (sessions w ! sid)) w
     = sync_dom sid w"
  by (simp add: rerender_def commit_def Let_def)

section \<open>Claims about the loading of the scripts\<close>

text \<open>
  C1. Two mounts that both call \<open>loadScripts\<close> before anything has loaded: the claim is
  that each script element is appended at most once and that both calls settle
  together. On the code, each call appends its own jQuery script and, when the two jQuery
  scripts load before the first widget script does, its own widget script; and when the
  second jQuery script fails, the first call is resolved while the second is rejected.
\<close>

theorem concurrent_mounts_load_each_script_twice:
  "map src (body_scripts (run sample_plugin fresh_page
      [Mount no_props, Mount no_props, ScriptLoaded 0, ScriptLoaded 1,
       ScriptLoaded 2, Resume 0, ScriptLoaded 3, Resume 1]))
     = [JQuerySrc, JQuerySrc, MRWidgetSrc, MRWidgetSrc]
   \<and> promises (run sample_plugin fresh_page
      [Mount no_props, Mount no_props, ScriptLoaded 0, ScriptFailed 1, Resume 1,
       ScriptLoaded 2, Resume 0])
     = [Resolved, Rejected FailedToLoadJQuery]"
  by code_simp

text \<open>
  C7. The claim is that the two script loads are never in flight at the same time. After
  two mounts and the load of the first jQuery script, the second jQuery script and the
  widget script are both still loading.
\<close>

theorem jquery_and_widget_loads_overlap:
  "filter (\<lambda>el. \<not> fired el) (body_scripts (run sample_plugin fresh_page
      [Mount no_props, Mount no_props, ScriptLoaded 0]))
     = [\<lparr>src = JQuerySrc, call = 1, fired = False\<rparr>,
        \<lparr>src = MRWidgetSrc, call = 0, fired = False\<rparr>]"
  by code_simp

text \<open>
  What does hold of the order: \<open>loadScripts\<close> appends a widget script only when
  \<open>window.$\<close> is set, and the load of a script appends one only when that script is
  jQuery, which has then run and set \<open>window.$\<close>. Nothing else appends a script.
\<close>

lemma map_src_mark_fired:
  "map src (body_scripts (mark_fired i w)) = map src (body_scripts w)"
proof -
  have "map src (xs[i := (xs ! i)\<lparr>fired := True\<rparr>]) = map src xs" for xs :: "script_el list"
    by (induction xs arbitrary: i) (auto split: nat.splits)
  then show ?thesis by (simp add: mark_fired_def)
qed

lemma loadScripts_appends:
  "map src (body_scripts (snd (loadScripts w))) =
     map src (body_scripts w) @
       (if dollar w = NoDollar then [JQuerySrc]
        else if MR_WIDGET_SCRIPTS_LOADED w then [] else [MRWidgetSrc])"
  by (simp add: loadScripts_def Let_def append_script_def loadMRWidget_def settle_def)

lemma script_loaded_appends:
  "map src (body_scripts (script_loaded i w)) =
     map src (body_scripts w) @
       (if i < length (body_scripts w) \<and> \<not> fired (body_scripts w ! i)
           \<and> src (body_scripts w ! i) = JQuerySrc \<and> \<not> MR_WIDGET_SCRIPTS_LOADED w
        then [MRWidgetSrc] else [])"
proof (cases "i < length (body_scripts w) \<and> \<not> fired (body_scripts w ! i)")
  case False
  then show ?thesis by (auto simp: script_loaded_def)
next
  case True
  have m: "map src ((body_scripts w)[i := (body_scripts w ! i)\<lparr>fired := True\<rparr>])
      = map src (body_scripts w)"
    using map_src_mark_fired [of i w] by (simp add: mark_fired_def)
  from True show ?thesis
    by (cases "src (body_scripts w ! i)")
      (simp_all add: script_loaded_def Let_def onload_def loadMRWidget_def settle_def
        append_script_def mark_fired_def m)
qed

lemma script_loaded_jquery_sets_dollar:
  "i < length (body_scripts w) \<Longrightarrow> \<not> fired (body_scripts w ! i) \<Longrightarrow>
   src (body_scripts w ! i) = JQuerySrc \<Longrightarrow> dollar (script_loaded i w) = DollarFunction"
  by (simp add: script_loaded_def Let_def onload_def loadMRWidget_def settle_def
      append_script_def mark_fired_def)

section \<open>Claims about the session\<close>

text \<open>
  C2, as stated, fails. Mount 0 and mount 1 are on the page; the scripts of mount 0 load
  and mount 0 attaches the widget, while the jQuery script of mount 1 is still loading, so
  mount 1 has attached nothing. Unmounting mount 1 empties the element that holds the
  widget of mount 0. And unmounting the mount that did attach leaves
  \<open>__MR_WIDGET_INITIALIZED__\<close> set.
\<close>

theorem unmount_clears_widget_of_other_mount:
  "zones (run sample_plugin fresh_page
      [Mount no_props, Mount no_props, ScriptLoaded 0, ScriptLoaded 2, Resume 0])
     = [\<lparr>mount = 0, innerHTML = js ''<div class=MR-Widget>''\<rparr>, \<lparr>mount = 1, innerHTML = []\<rparr>]
   \<and> map resumed (awaitings (run sample_plugin fresh_page
      [Mount no_props, Mount no_props, ScriptLoaded 0, ScriptLoaded 2, Resume 0]))
     = [True, False]
   \<and> zones (run sample_plugin fresh_page
      [Mount no_props, Mount no_props, ScriptLoaded 0, ScriptLoaded 2, Resume 0, Unmount 1])
     = [\<lparr>mount = 0, innerHTML = []\<rparr>]
   \<and> MR_WIDGET_INITIALIZED (run sample_plugin fresh_page
      [Mount no_props, ScriptLoaded 0, ScriptLoaded 1, Resume 0, Unmount 0])"
  by code_simp

text \<open>
  C2, amended. The cleanup leaves \<open>__MR_WIDGET_SCRIPTS_LOADED__\<close>, \<open>window.$\<close>, the
  appended scripts and the promises as they are, and \<open>__MR_WIDGET_INITIALIZED__\<close> too. In
  a browser it empties the first element with id \<open>Zone_Widget\<close> of the document,
  whichever mount rendered it, and resets the \<open>widgetInitialized\<close> ref of its own
  session. The whole unmount leaves the load state as it is.
\<close>

theorem cleanup_fn_effect:
  "MR_WIDGET_SCRIPTS_LOADED (cleanup_fn sid w) = MR_WIDGET_SCRIPTS_LOADED w
   \<and> MR_WIDGET_INITIALIZED (cleanup_fn sid w) = MR_WIDGET_INITIALIZED w
   \<and> dollar (cleanup_fn sid w) = dollar w
   \<and> body_scripts (cleanup_fn sid w) = body_scripts w
   \<and> promises (cleanup_fn sid w) = promises w
   \<and> zones (cleanup_fn sid w) =
       (if isBrowser w then (case zones w of [] \<Rightarrow> [] | z # zs \<Rightarrow> z\<lparr>innerHTML := []\<rparr> # zs)
        else zones w)
   \<and> (isBrowser w \<and> sid < length (sessions w) \<longrightarrow>
        \<not> widgetInitialized (sessions (cleanup_fn sid w) ! sid))
   \<and> MR_WIDGET_SCRIPTS_LOADED (step plugin w (Unmount sid)) = MR_WIDGET_SCRIPTS_LOADED w
   \<and> MR_WIDGET_INITIALIZED (step plugin w (Unmount sid)) = MR_WIDGET_INITIALIZED w
   \<and> dollar (step plugin w (Unmount sid)) = dollar w
   \<and> body_scripts (step plugin w (Unmount sid)) = body_scripts w
   \<and> promises (step plugin w (Unmount sid)) = promises w"
proof -
  have "zones (cleanup_fn sid w) =
       (if isBrowser w then (case zones w of [] \<Rightarrow> [] | z # zs \<Rightarrow> z\<lparr>innerHTML := []\<rparr> # zs)
        else zones w)"
    by (simp add: cleanup_fn_def clear_zone_def)
  moreover have "isBrowser w \<and> sid < length (sessions w) \<longrightarrow>
        \<not> widgetInitialized (sessions (cleanup_fn sid w) ! sid)"
    by (simp add: isBrowser_def)
  ultimately show ?thesis
    by (simp add: unmount_session_def Let_def)
qed

theorem cleanup_fn_effect_witness:
  "isBrowser (mount_session no_props fresh_page)
   \<and> 0 < length (sessions (mount_session no_props fresh_page))
   \<and> widgetInitialized (sessions (mount_session no_props fresh_page) ! 0)
   \<and> \<not> widgetInitialized (sessions (cleanup_fn 0 (mount_session no_props fresh_page)) ! 0)"
proof -
  have h: "isBrowser (mount_session no_props fresh_page)
      \<and> 0 < length (sessions (mount_session no_props fresh_page))"
    by code_simp
  have b: "widgetInitialized (sessions (mount_session no_props fresh_page) ! 0)"
    by code_simp
  from h b cleanup_fn_effect [of 0 "mount_session no_props fresh_page" sample_plugin]
  show ?thesis by simp
qed

text \<open>
  C3, as stated, fails. One mount whose \<open>weight\<close> prop then changes has begun the chain
  twice, and the ref is not monotonic: it is set after the mount and the cleanup (which
  React calls before it runs the effect again) resets it.
\<close>

theorem prop_change_begins_second_chain:
  "chains 0 (run sample_plugin fresh_page [Mount no_props]) = 1
   \<and> chains 0 (run sample_plugin fresh_page
        [Mount no_props, Update 0 (no_props\<lparr>weight := Some 500\<rparr>)]) = 2
   \<and> widgetInitialized (sessions (run sample_plugin fresh_page [Mount no_props]) ! 0)
   \<and> \<not> widgetInitialized
        (sessions (cleanup_fn 0 (run sample_plugin fresh_page [Mount no_props])) ! 0)"
  by code_simp

text \<open>
  C3, amended. For a live session in a browser that is ready, shows no error and whose
  second effect has run (its cleanup is registered), new props begin exactly one new
  chain when they change a dependency of the second effect, and none when they do not.
\<close>

theorem update_begins_new_chain:
  assumes "isBrowser w" "live sid w" "isReady (sessions w ! sid)"
    "\<not> truthy (error (sessions w ! sid))" "cleanup (sessions w ! sid)"
  shows "chains sid (step plugin w (Update sid p)) =
           chains sid w + (if init_deps p \<noteq> init_deps (props (sessions w ! sid)) then 1 else 0)"
proof -
  define s where "s = sessions w ! sid"
  define w0 where "w0 = upd_session sid (\<lambda>s. s\<lparr>props := p\<rparr>) w"
  define w1 where "w1 = commit sid (isReady s) (error s) (props s) w0"
  from assms have len: "sid < length (sessions w)" and br: "browser w"
    by (simp_all add: live_def isBrowser_def)
  have len0: "sid < length (sessions w0)" using len by (simp add: w0_def)
  have s0: "sessions w0 ! sid = s\<lparr>props := p\<rparr>" using len by (simp add: w0_def s_def)
  have first: "chains sid w1 = chains sid w + (if init_deps p \<noteq> init_deps (props s) then 1 else 0)"
    unfolding w1_def using assms(3-5) br
    by (simp add: chains_commit [OF len0] s0) (simp add: w0_def s_def)
  have st1: "isReady (sessions w1 ! sid)"
      "error (sessions w1 ! sid) = error s \<or> truthy (error (sessions w1 ! sid))"
    using state_commit [OF len0, of "isReady s" "error s" "props s"] assms(3)
    by (simp_all add: w1_def s0 s_def)
  have len1: "sid < length (sessions w1)" using len0 by (simp add: w1_def)
  have second: "chains sid (commit sid (isReady (sessions w0 ! sid)) (error (sessions w0 ! sid))
        (props (sessions w0 ! sid)) w1) = chains sid w1"
    if "isReady (sessions w1 ! sid) \<noteq> isReady (sessions w0 ! sid)
        \<or> error (sessions w1 ! sid) \<noteq> error (sessions w0 ! sid)"
  proof -
    from that st1 assms(3) have "truthy (error (sessions w1 ! sid))"
      by (auto simp: s0 s_def)
    then show ?thesis by (simp add: chains_commit [OF len1])
  qed
  define again where "again \<longleftrightarrow> isReady (sessions w1 ! sid) \<noteq> isReady (sessions w0 ! sid)
        \<or> error (sessions w1 ! sid) \<noteq> error (sessions w0 ! sid)"
  have "step plugin w (Update sid p) = rerender sid (isReady s) (error s) (props s) w0"
    using assms(2) by (simp add: update_props_def Let_def s_def w0_def)
  also have "\<dots> = (if again then commit sid (isReady (sessions w0 ! sid)) (error (sessions w0 ! sid))
        (props (sessions w0 ! sid)) w1 else w1)"
    by (simp add: rerender_def Let_def w1_def again_def)
  finally have "chains sid (step plugin w (Update sid p)) = chains sid w1"
    using second by (cases again) (simp_all add: again_def)
  with first show ?thesis by (simp add: s_def)
qed

theorem update_begins_new_chain_witness:
  "chains 0 (step sample_plugin (mount_session no_props fresh_page)
       (Update 0 (no_props\<lparr>weight := Some 500\<rparr>)))
     = chains 0 (mount_session no_props fresh_page) + 1
   \<and> chains 0 (step sample_plugin (mount_session no_props fresh_page) (Update 0 no_props))
     = chains 0 (mount_session no_props fresh_page)"
proof -
  let ?w = "mount_session no_props fresh_page"
  have h1: "isBrowser ?w" by code_simp
  have h2: "live 0 ?w" by code_simp
  have h3: "isReady (sessions ?w ! 0)" by code_simp
  have h4: "\<not> truthy (error (sessions ?w ! 0))" by code_simp
  have h5: "cleanup (sessions ?w ! 0)" by code_simp
  have d1: "init_deps (no_props\<lparr>weight := Some 500\<rparr>) \<noteq> init_deps (props (sessions ?w ! 0))"
    by code_simp
  have d2: "init_deps no_props = init_deps (props (sessions ?w ! 0))"
    by code_simp
  from update_begins_new_chain [OF h1 h2 h3 h4 h5, of sample_plugin "no_props\<lparr>weight := Some 500\<rparr>"]
    update_begins_new_chain [OF h1 h2 h3 h4 h5, of sample_plugin no_props] d1 d2
  show ?thesis by simp
qed

text \<open>
  C6. The claim is that an invalid delivery mode is only warned about and that the widget
  then gets the default \<open>24R\<close>. On the code the warning is written and validation does
  not fail, but the mode handed to the plugin is the invalid one.
\<close>

theorem invalid_delivery_mode_reaches_plugin:
  "validateDeliveryMode (Some (js ''ZZZ'')) = [InvalidDeliveryMode (js ''ZZZ'')]
   \<and> ColLivMod (widget_config (no_props\<lparr>deliveryMode := Some (js ''ZZZ'')\<rparr>) (js ''BDTEST  ''))
       = js ''ZZZ''
   \<and> js ''ZZZ'' \<noteq> js ''24R''
   \<and> error (sessions (run echo_plugin fresh_page
        [Mount (no_props\<lparr>deliveryMode := Some (js ''ZZZ'')\<rparr>),
         ScriptLoaded 0, ScriptLoaded 1, Resume 0]) ! 0) = None
   \<and> zones (run echo_plugin fresh_page
        [Mount (no_props\<lparr>deliveryMode := Some (js ''ZZZ'')\<rparr>),
         ScriptLoaded 0, ScriptLoaded 1, Resume 0])
       = [\<lparr>mount = 0, innerHTML = js ''ZZZ''\<rparr>]"
  by code_simp

text \<open>
  C8, as stated, fails. The scripts load, code outside the component takes \<open>window.$\<close>
  away before the widget script has loaded, and the attach attempt that follows only
  writes a line to the console: \<open>initWidget\<close> throws nothing and the \<open>error\<close> state of the
  session stays null.
\<close>

theorem missing_jquery_is_only_logged:
  "MR_WIDGET_SCRIPTS_LOADED (run sample_plugin fresh_page
      [Mount no_props, ScriptLoaded 0, AssignDollar NoDollar, ScriptLoaded 1])
   \<and> fst (initWidget sample_plugin no_props (run sample_plugin fresh_page
      [Mount no_props, ScriptLoaded 0, AssignDollar NoDollar, ScriptLoaded 1])) = None
   \<and> error (sessions (run sample_plugin fresh_page
      [Mount no_props, ScriptLoaded 0, AssignDollar NoDollar, ScriptLoaded 1, Resume 0]) ! 0) = None
   \<and> console (run sample_plugin fresh_page
      [Mount no_props, ScriptLoaded 0, AssignDollar NoDollar, ScriptLoaded 1, Resume 0])
       = [JQueryNotAvailable]"
  by code_simp

text \<open>
  C8, amended. When \<open>window.$\<close> is no function, \<open>initWidget\<close> writes "jQuery not
  available" to the console and returns: it throws nothing and changes nothing else. The
  resumption of an \<open>initializeWidget\<close> whose promise is resolved then leaves every session
  as it was (no \<open>error\<close> is set) and does not set \<open>__MR_WIDGET_INITIALIZED__\<close>.
\<close>

theorem initWidget_without_jquery:
  assumes "dollar w \<noteq> DollarFunction"
  shows "initWidget plugin p w = (None, log [JQueryNotAvailable] w)
     \<and> (resumable k w \<and> promises w ! promise (awaitings w ! k) = Resolved \<longrightarrow>
          sessions (step plugin w (Resume k)) = sessions w
          \<and> console (step plugin w (Resume k)) = console w @ [JQueryNotAvailable]
          \<and> MR_WIDGET_INITIALIZED (step plugin w (Resume k)) = MR_WIDGET_INITIALIZED w)"
proof -
  have one: "initWidget plugin p' w' = (None, log [JQueryNotAvailable] w')"
    if "dollar w' \<noteq> DollarFunction" for p' w'
    using that by (simp add: initWidget_def)
  have two: "sessions (step plugin w (Resume k)) = sessions w
          \<and> console (step plugin w (Resume k)) = console w @ [JQueryNotAvailable]
          \<and> MR_WIDGET_INITIALIZED (step plugin w (Resume k)) = MR_WIDGET_INITIALIZED w"
    if r: "resumable k w" and res: "promises w ! promise (awaitings w ! k) = Resolved"
  proof -
    define a where "a = awaitings w ! k"
    define w1 where "w1 = w\<lparr>awaitings := (awaitings w)[k := a\<lparr>resumed := True\<rparr>]\<rparr>"
    define w2 where "w2 = log [JQueryNotAvailable] w1"
    have d1: "dollar w1 \<noteq> DollarFunction" using assms by (simp add: w1_def)
    have s2: "sessions w2 = sessions w" by (simp add: w2_def w1_def)
    have "step plugin w (Resume k) =
        rerender (session a) (isReady (sessions w ! session a)) (error (sessions w ! session a))
          (props (sessions w ! session a)) w2"
      using r res by (simp add: resume_def Let_def a_def [symmetric] w1_def [symmetric] one [OF d1] w2_def)
    also have "\<dots> = sync_dom (session a) w2"
      using rerender_same [of "session a" w2] by (simp add: s2)
    finally show ?thesis by (simp add: s2) (simp add: w2_def w1_def)
  qed
  from one [OF assms] two show ?thesis by blast
qed

theorem initWidget_without_jquery_witness:
  "dollar (run sample_plugin fresh_page
      [Mount no_props, ScriptLoaded 0, AssignDollar NoDollar, ScriptLoaded 1]) \<noteq> DollarFunction
   \<and> resumable 0 (run sample_plugin fresh_page
      [Mount no_props, ScriptLoaded 0, AssignDollar NoDollar, ScriptLoaded 1])
   \<and> sessions (step sample_plugin (run sample_plugin fresh_page
      [Mount no_props, ScriptLoaded 0, AssignDollar NoDollar, ScriptLoaded 1]) (Resume 0))
       = sessions (run sample_plugin fresh_page
      [Mount no_props, ScriptLoaded 0, AssignDollar NoDollar, ScriptLoaded 1])
   \<and> console (step sample_plugin (run sample_plugin fresh_page
      [Mount no_props, ScriptLoaded 0, AssignDollar NoDollar, ScriptLoaded 1]) (Resume 0))
       = console (run sample_plugin fresh_page
      [Mount no_props, ScriptLoaded 0, AssignDollar NoDollar, ScriptLoaded 1]) @ [JQueryNotAvailable]"
proof -
  let ?w = "run sample_plugin fresh_page
      [Mount no_props, ScriptLoaded 0, AssignDollar NoDollar, ScriptLoaded 1]"
  have h1: "dollar ?w \<noteq> DollarFunction" by code_simp
  have h2: "resumable 0 ?w \<and> promises ?w ! promise (awaitings ?w ! 0) = Resolved" by code_simp
  from h1 h2 initWidget_without_jquery [OF h1, of sample_plugin no_props 0]
  show ?thesis by blast
qed

text \<open>
  C9. Whenever \<open>initWidget\<close> throws, \<open>__MR_WIDGET_INITIALIZED__\<close> is what it was before;
  and when the call of the plugin throws, \<open>initWidget\<close> throws that same error to its
  caller.
\<close>

theorem initWidget_failure_keeps_flag:
  "(fst (initWidget plugin p w) \<noteq> None \<longrightarrow>
      MR_WIDGET_INITIALIZED (snd (initWidget plugin p w)) = MR_WIDGET_INITIALIZED w)
   \<and> (dollar w = DollarFunction \<and> normalizeBrandId (brandIdAPI_of p) = Inr b
       \<and> fst (plugin (widget_config p b)
                (zone_content (if MR_WIDGET_INITIALIZED w then clear_zone w else w))) = Some e
      \<longrightarrow> fst (initWidget plugin p w) = Some e
          \<and> MR_WIDGET_INITIALIZED (snd (initWidget plugin p w)) = MR_WIDGET_INITIALIZED w)"
  by (auto simp: initWidget_def Let_def clear_zone_def split: sum.splits prod.splits option.splits)

theorem initWidget_failure_keeps_flag_witness:
  "fst (initWidget failing_plugin no_props (fresh_page\<lparr>dollar := DollarFunction\<rparr>))
     = Some (PluginError (js ''boom''))
   \<and> MR_WIDGET_INITIALIZED (snd (initWidget failing_plugin no_props (fresh_page\<lparr>dollar := DollarFunction\<rparr>)))
     = MR_WIDGET_INITIALIZED (fresh_page\<lparr>dollar := DollarFunction\<rparr>)"
proof -
  let ?w = "fresh_page\<lparr>dollar := DollarFunction\<rparr>"
  have h: "dollar ?w = DollarFunction \<and> normalizeBrandId (brandIdAPI_of no_props) = Inr (js ''BDTEST  '')
       \<and> fst (failing_plugin (widget_config no_props (js ''BDTEST  ''))
                (zone_content (if MR_WIDGET_INITIALIZED ?w then clear_zone ?w else ?w)))
           = Some (PluginError (js ''boom''))"
    by code_simp
  from h initWidget_failure_keeps_flag [of failing_plugin no_props ?w "js ''BDTEST  ''" "PluginError (js ''boom'')"]
  show ?thesis by blast
qed

section \<open>Claim about \<open>createShipment\<close>\<close>

text \<open>
  C10. When one of the three schemas rejects its argument, or the login or the password
  is the placeholder, \<open>createShipment\<close> throws and issues no HTTP request. It never issues
  more than one request, and it issues one only after all four checks have passed and
  the request has been built and serialised: exactly one when both succeed, none (and a
  throw) when either fails.
\<close>

theorem createShipment_validates_before_request:
  "(\<not> ShipContextSchema env (shipContext ps) \<or> \<not> ShipmentSchema env (shipment ps)
      \<or> \<not> ShipOutputOptionsSchema env (outputOptions ps)
      \<or> Login (shipContext ps) = js ''fill in your login here''
      \<or> Password (shipContext ps) = js ''fill in your password here''
     \<longrightarrow> fst (createShipment env ps) = [] \<and> isl (snd (createShipment env ps)))
   \<and> length (fst (createShipment env ps)) \<le> 1
   \<and> (fst (createShipment env ps) \<noteq> [] \<longrightarrow>
        ShipContextSchema env (shipContext ps) \<and> ShipmentSchema env (shipment ps)
        \<and> ShipOutputOptionsSchema env (outputOptions ps)
        \<and> Login (shipContext ps) \<noteq> js ''fill in your login here''
        \<and> Password (shipContext ps) \<noteq> js ''fill in your password here''
        \<and> (\<exists>data xml. request_data ps = Inr data \<and> generateXML env data = Some xml
              \<and> fst (createShipment env ps) = [(API_URL ps, xml)]))
   \<and> (ShipContextSchema env (shipContext ps) \<and> ShipmentSchema env (shipment ps)
        \<and> ShipOutputOptionsSchema env (outputOptions ps)
        \<and> Login (shipContext ps) \<noteq> js ''fill in your login here''
        \<and> Password (shipContext ps) \<noteq> js ''fill in your password here''
        \<and> request_data ps = Inr data \<and> generateXML env data = Some xml
      \<longrightarrow> fst (createShipment env ps) = [(API_URL ps, xml)])
   \<and> (isl (request_data ps) \<or> (\<exists>data. request_data ps = Inr data \<and> generateXML env data = None)
      \<longrightarrow> fst (createShipment env ps) = [] \<and> isl (snd (createShipment env ps)))"
proof -
  have none: "fst (createShipment env ps) = [] \<and> isl (snd (createShipment env ps))"
    if "\<not> ShipContextSchema env (shipContext ps) \<or> \<not> ShipmentSchema env (shipment ps)
      \<or> \<not> ShipOutputOptionsSchema env (outputOptions ps)
      \<or> Login (shipContext ps) = js ''fill in your login here''
      \<or> Password (shipContext ps) = js ''fill in your password here''"
    using that by (auto simp: createShipment_def)
  have built: "fst (createShipment env ps) = [] \<and> isl (snd (createShipment env ps))"
    if "isl (request_data ps) \<or> (\<exists>data. request_data ps = Inr data \<and> generateXML env data = None)"
    using that by (auto simp: createShipment_def split: sum.splits)
  have one: "fst (createShipment env ps) = [(API_URL ps, xml)]"
    if "ShipContextSchema env (shipContext ps)" "ShipmentSchema env (shipment ps)"
      "ShipOutputOptionsSchema env (outputOptions ps)"
      "Login (shipContext ps) \<noteq> js ''fill in your login here''"
      "Password (shipContext ps) \<noteq> js ''fill in your password here''"
      "request_data ps = Inr data" "generateXML env data = Some xml" for data xml
    using that by (simp add: createShipment_def)
  have most: "length (fst (createShipment env ps)) \<le> 1"
    by (simp add: createShipment_def split: sum.splits option.splits)
  have only: "ShipContextSchema env (shipContext ps) \<and> ShipmentSchema env (shipment ps)
        \<and> ShipOutputOptionsSchema env (outputOptions ps)
        \<and> Login (shipContext ps) \<noteq> js ''fill in your login here''
        \<and> Password (shipContext ps) \<noteq> js ''fill in your password here''
        \<and> (\<exists>data xml. request_data ps = Inr data \<and> generateXML env data = Some xml
              \<and> fst (createShipment env ps) = [(API_URL ps, xml)])"
    if "fst (createShipment env ps) \<noteq> []"
    using that by (auto simp: createShipment_def split: if_splits sum.splits option.splits)
  from none built one most only show ?thesis by blast
qed

theorem createShipment_validates_before_request_witness:
  "createShipment sample_env
       (sample_params (js ''fill in your login here'') (js ''secret'') sample_shipment)
     = ([], Inl LoginOrPasswordMissing)
   \<and> length (fst (createShipment sample_env
       (sample_params (js ''login'') (js ''secret'') sample_shipment))) = 1
   \<and> createShipment sample_env
       (sample_params (js ''login'') (js ''secret'') (sample_shipment\<lparr>Parcels := None\<rparr>))
     = ([], Inl ParcelMissing)"
proof -
  let ?bad = "sample_params (js ''fill in your login here'') (js ''secret'') sample_shipment"
  let ?good = "sample_params (js ''login'') (js ''secret'') sample_shipment"
  let ?bare = "sample_params (js ''login'') (js ''secret'') (sample_shipment\<lparr>Parcels := None\<rparr>)"
  have h1: "Login (shipContext ?bad) = js ''fill in your login here''"
    by (simp add: sample_params_def)
  have v1: "snd (createShipment sample_env ?bad) = Inl LoginOrPasswordMissing"
    by code_simp
  have h2: "fst (createShipment sample_env ?good) \<noteq> []"
    by code_simp
  have h3: "isl (request_data ?bare)"
    by code_simp
  have v3: "snd (createShipment sample_env ?bare) = Inl ParcelMissing"
    by code_simp
  from h1 createShipment_validates_before_request [THEN conjunct1, of sample_env ?bad]
  have "fst (createShipment sample_env ?bad) = []" by blast
  with v1 have a: "createShipment sample_env ?bad = ([], Inl LoginOrPasswordMissing)"
    by (simp only: prod_eq_iff fst_conv snd_conv simp_thms)
  from createShipment_validates_before_request [THEN conjunct2, THEN conjunct1, of sample_env ?good]
  have "length (fst (createShipment sample_env ?good)) \<le> 1" .
  with h2 have b: "length (fst (createShipment sample_env ?good)) = 1"
    by (cases "fst (createShipment sample_env ?good)") simp_all
  from h3 createShipment_validates_before_request
    [THEN conjunct2, THEN conjunct2, THEN conjunct2, THEN conjunct2, of ?bare sample_env]
  have "fst (createShipment sample_env ?bare) = []" by blast
  with v3 have c: "createShipment sample_env ?bare = ([], Inl ParcelMissing)"
    by (simp only: prod_eq_iff fst_conv snd_conv simp_thms)
  from a b c show ?thesis by (simp only: simp_thms)
qed

end
